theory Spec2Isabelle
  imports Main
begin

section \<open>The flux HTTP client (src/http/client.go)\<close>

text \<open>
  The client turns a route name and a flat list of query parameters into an HTTP request,
  attaches the token, sends the request and decodes the answer. Its collaborators are not
  part of the file: the route resolver \<open>makeURL\<close>, the token, the transport
  (\<open>http.Client.Do\<close>), \<open>http.NewRequest\<close>, \<open>encoding/json\<close> and
  \<open>strings.TrimSpace\<close>. They are the fields of the record \<open>client\<close> below, so every
  statement holds for any behaviour of theirs. What the client does with them, in which
  order, is recorded in a trace of events that every operation takes and returns extended.
\<close>

subsection \<open>Data\<close>

type_synonym bytes = string

text \<open>\<open>httperror.APIError\<close>, with the three fields the client fills in.\<close>

record APIError =
  StatusCode :: int
  Status :: string
  Body :: string

text \<open>
  Errors: a value produced by a collaborator, \<open>errors.Wrap(err, msg)\<close> around a cause,
  and the structured API error.
\<close>

datatype err =
    ExtError string
  | Wrap err string
  | APIErr APIError

text \<open>
  A response body is a stream: \<open>ioutil.ReadAll\<close> delivers the bytes read until the end of
  the stream or until a read error, together with that error.
\<close>

record body =
  body_data :: bytes
  body_readErr :: "err option"

record response =
  resp_StatusCode :: int
  resp_Status :: string
  resp_Body :: body

text \<open>
  A request as \<open>http.NewRequest\<close> builds it: the verb, the URL, the payload (\<open>None\<close>
  for the \<open>nil\<close> reader of a GET) and the headers, empty at first.
\<close>

record request =
  req_method :: string
  req_url :: string
  req_payload :: "bytes option"
  req_header :: "(string \<times> string) list"

datatype event =
    EvMakeURL string "string list"
  | EvMarshal
  | EvNewRequest string string "bytes option"
  | EvTokenSet request
  | EvDo request
  | EvReadAll
  | EvDecode
  | EvUnmarshal bytes
  | EvClose

type_synonym trace = "event list"

text \<open>
  The value a primitive returns: \<open>nil\<close>, an error, or no return at all because a
  \<open>nil\<close> response was dereferenced.
\<close>

datatype result = Success | Failure err | NilPanic

text \<open>
  The struct \<open>client\<close> with its collaborators. \<open>'b\<close> is the type of request body
  values, \<open>'d\<close> the type of the value a destination pointer points to.
  \<^item> \<open>makeURL\<close>: the route resolver with the router fixed; it gets the endpoint, the
    route name and the flat parameter list.
  \<^item> \<open>Marshal\<close>: \<open>json.Marshal\<close>.
  \<^item> \<open>NewRequestErr\<close>: the error of \<open>http.NewRequest\<close> for a verb and a URL, if any.
  \<^item> \<open>tokenSet\<close>: \<open>token.Set\<close>, which changes the request it is given.
  \<^item> \<open>clientDo\<close>: \<open>http.Client.Do\<close>; when it reports an error the client ignores
    any response that comes with it.
  \<^item> \<open>TrimSpace\<close>: \<open>strings.TrimSpace\<close>.
  \<^item> \<open>DecodeInto\<close>, \<open>DecodeNil\<close>: \<open>json.NewDecoder(body).Decode(dest)\<close> for a
    destination pointer and for a \<open>nil\<close> destination (always an error). Decoding may
    change the destination even when it fails.
  \<^item> \<open>UnmarshalInto\<close>, \<open>UnmarshalAny\<close>: \<open>json.Unmarshal(data, &dest)\<close> where the
    interface \<open>dest\<close> holds a pointer, and where it is \<open>nil\<close>, so that the data is
    parsed into a generic value that is dropped.
\<close>

record ('b, 'd) client =
  endpoint :: string
  makeURL :: "string \<Rightarrow> string \<Rightarrow> string list \<Rightarrow> err + string"
  Marshal :: "'b \<Rightarrow> err + bytes"
  NewRequestErr :: "string \<Rightarrow> string \<Rightarrow> err option"
  tokenSet :: "request \<Rightarrow> request"
  clientDo :: "request \<Rightarrow> err + response"
  TrimSpace :: "string \<Rightarrow> string"
  DecodeInto :: "body \<Rightarrow> 'd \<Rightarrow> err option \<times> 'd"
  DecodeNil :: "body \<Rightarrow> err"
  UnmarshalInto :: "bytes \<Rightarrow> 'd \<Rightarrow> err option \<times> 'd"
  UnmarshalAny :: "bytes \<Rightarrow> err option"

subsection \<open>Library calls\<close>

definition StatusOK :: int where
  "StatusOK = 200"

definition ReadAll :: "body \<Rightarrow> bytes \<times> err option" where
  "ReadAll b = (body_data b, body_readErr b)"

definition NewRequest ::
  "('b, 'd) client \<Rightarrow> string \<Rightarrow> string \<Rightarrow> bytes option \<Rightarrow> err + request" where
  "NewRequest c m u p =
     (case NewRequestErr c m u of
        Some e \<Rightarrow> Inl e
      | None \<Rightarrow> Inr \<lparr>req_method = m, req_url = u, req_payload = p, req_header = []\<rparr>)"

text \<open>
  A destination is \<open>None\<close> for a \<open>nil\<close> interface and \<open>Some v\<close> for a pointer to a
  variable of the caller that holds \<open>v\<close>.
\<close>

definition jsonDecode ::
  "('b, 'd) client \<Rightarrow> body \<Rightarrow> 'd option \<Rightarrow> err option \<times> 'd option" where
  "jsonDecode c b dest =
     (case dest of
        None \<Rightarrow> (Some (DecodeNil c b), None)
      | Some v \<Rightarrow> (case DecodeInto c b v of (e, v') \<Rightarrow> (e, Some v')))"

definition jsonUnmarshal ::
  "('b, 'd) client \<Rightarrow> bytes \<Rightarrow> 'd option \<Rightarrow> err option \<times> 'd option" where
  "jsonUnmarshal c bs dest =
     (case dest of
        None \<Rightarrow> (UnmarshalAny c bs, None)
      | Some v \<Rightarrow> (case UnmarshalInto c bs v of (e, v') \<Rightarrow> (e, Some v')))"

subsection \<open>The request primitives\<close>

text \<open>\<open>executeRequest\<close> returns a pair, as the Go function does.\<close>

definition executeRequest ::
  "('b, 'd) client \<Rightarrow> request \<Rightarrow> trace \<Rightarrow> (response option \<times> err option) \<times> trace" where
  "executeRequest c req tr =
     (case clientDo c req of
        Inl e \<Rightarrow> ((None, Some (Wrap e ''executing HTTP request'')), tr @ [EvDo req])
      | Inr resp \<Rightarrow>
          (if resp_StatusCode resp = StatusOK then ((Some resp, None), tr @ [EvDo req])
           else
             (case ReadAll (resp_Body resp) of
                (buf, _) \<Rightarrow>
                  ((None,
                    Some (APIErr \<lparr>StatusCode = resp_StatusCode resp,
                                  Status = resp_Status resp,
                                  Body = TrimSpace c buf\<rparr>)),
                   tr @ [EvDo req, EvReadAll]))))"

text \<open>Lines 129 to 135 of \<open>postWithResp\<close>: the payload of the request.\<close>

definition encodeBody ::
  "('b, 'd) client \<Rightarrow> 'b option \<Rightarrow> trace \<Rightarrow> (err + bytes) \<times> trace" where
  "encodeBody c body tr =
     (case body of
        None \<Rightarrow> (Inr [], tr)
      | Some b \<Rightarrow> (Marshal c b, tr @ [EvMarshal]))"

text \<open>Lines 149 to 159 of \<open>postWithResp\<close>: what runs under the deferred close.\<close>

definition postWithResp_read ::
  "('b, 'd) client \<Rightarrow> 'd option \<Rightarrow> response \<Rightarrow> trace \<Rightarrow> result \<times> 'd option \<times> trace" where
  "postWithResp_read c dest resp tr =
     (case ReadAll (resp_Body resp) of
        (respBytes, Some e) \<Rightarrow>
          (Failure (Wrap e ''decoding response from server''), dest, tr @ [EvReadAll])
      | (respBytes, None) \<Rightarrow>
          (if length respBytes \<le> 0 then (Success, dest, tr @ [EvReadAll])
           else
             (case jsonUnmarshal c respBytes dest of
                (Some e, dest') \<Rightarrow>
                  (Failure (Wrap e ''decoding response from server''), dest',
                   tr @ [EvReadAll, EvUnmarshal respBytes])
              | (None, dest') \<Rightarrow>
                  (Success, dest', tr @ [EvReadAll, EvUnmarshal respBytes]))))"

text \<open>Lines 137 to 160: from the request on. The deferred close runs at the return.\<close>

definition postWithResp_send ::
  "('b, 'd) client \<Rightarrow> 'd option \<Rightarrow> string \<Rightarrow> bytes \<Rightarrow> trace \<Rightarrow> result \<times> 'd option \<times> trace" where
  "postWithResp_send c dest u bodyBytes tr =
     (case NewRequest c ''POST'' u (Some bodyBytes) of
        Inl e \<Rightarrow>
          (Failure (Wrap e (''constructing request '' @ u)), dest,
           tr @ [EvNewRequest ''POST'' u (Some bodyBytes)])
      | Inr req \<Rightarrow>
          (case executeRequest c (tokenSet c req)
                  (tr @ [EvNewRequest ''POST'' u (Some bodyBytes), EvTokenSet req]) of
             ((_, Some e), tr') \<Rightarrow> (Failure (Wrap e ''executing HTTP request''), dest, tr')
           | ((None, None), tr') \<Rightarrow> (NilPanic, dest, tr')
           | ((Some resp, None), tr') \<Rightarrow>
               (case postWithResp_read c dest resp tr' of
                  (r, dest', tr'') \<Rightarrow> (r, dest', tr'' @ [EvClose]))))"

definition postWithResp ::
  "('b, 'd) client \<Rightarrow> 'd option \<Rightarrow> string \<Rightarrow> 'b option \<Rightarrow> string list \<Rightarrow> trace
     \<Rightarrow> result \<times> 'd option \<times> trace" where
  "postWithResp c dest route body queryParams tr =
     (case makeURL c (endpoint c) route queryParams of
        Inl e \<Rightarrow> (Failure (Wrap e ''constructing URL''), dest, tr @ [EvMakeURL route queryParams])
      | Inr u \<Rightarrow>
          (case encodeBody c body (tr @ [EvMakeURL route queryParams]) of
             (Inl e, tr') \<Rightarrow> (Failure (Wrap e ''encoding request body''), dest, tr')
           | (Inr bodyBytes, tr') \<Rightarrow> postWithResp_send c dest u bodyBytes tr'))"

definition postWithBody ::
  "('b, 'd) client \<Rightarrow> string \<Rightarrow> 'b option \<Rightarrow> string list \<Rightarrow> trace
     \<Rightarrow> result \<times> 'd option \<times> trace" where
  "postWithBody c route body queryParams tr = postWithResp c None route body queryParams tr"

definition post ::
  "('b, 'd) client \<Rightarrow> string \<Rightarrow> string list \<Rightarrow> trace \<Rightarrow> result \<times> 'd option \<times> trace" where
  "post c route queryParams tr = postWithBody c route None queryParams tr"

text \<open>Lines 181 to 184 of \<open>get\<close>: what runs under the deferred close.\<close>

definition get_decode ::
  "('b, 'd) client \<Rightarrow> 'd option \<Rightarrow> response \<Rightarrow> trace \<Rightarrow> result \<times> 'd option \<times> trace" where
  "get_decode c dest resp tr =
     (case jsonDecode c (resp_Body resp) dest of
        (Some e, dest') \<Rightarrow>
          (Failure (Wrap e ''decoding response from server''), dest', tr @ [EvDecode])
      | (None, dest') \<Rightarrow> (Success, dest', tr @ [EvDecode]))"

text \<open>Lines 169 to 185 of \<open>get\<close>: from the request on.\<close>

definition get_send ::
  "('b, 'd) client \<Rightarrow> 'd option \<Rightarrow> string \<Rightarrow> trace \<Rightarrow> result \<times> 'd option \<times> trace" where
  "get_send c dest u tr =
     (case NewRequest c ''GET'' u None of
        Inl e \<Rightarrow>
          (Failure (Wrap e (''constructing request '' @ u)), dest,
           tr @ [EvNewRequest ''GET'' u None])
      | Inr req \<Rightarrow>
          (case executeRequest c (tokenSet c req)
                  (tr @ [EvNewRequest ''GET'' u None, EvTokenSet req]) of
             ((_, Some e), tr') \<Rightarrow> (Failure (Wrap e ''executing HTTP request''), dest, tr')
           | ((None, None), tr') \<Rightarrow> (NilPanic, dest, tr')
           | ((Some resp, None), tr') \<Rightarrow>
               (case get_decode c dest resp tr' of
                  (r, dest', tr'') \<Rightarrow> (r, dest', tr'' @ [EvClose]))))"

definition get ::
  "('b, 'd) client \<Rightarrow> 'd option \<Rightarrow> string \<Rightarrow> string list \<Rightarrow> trace
     \<Rightarrow> result \<times> 'd option \<times> trace" where
  "get c dest route queryParams tr =
     (case makeURL c (endpoint c) route queryParams of
        Inl e \<Rightarrow> (Failure (Wrap e ''constructing URL''), dest, tr @ [EvMakeURL route queryParams])
      | Inr u \<Rightarrow> get_send c dest u (tr @ [EvMakeURL route queryParams]))"

subsection \<open>PostRelease\<close>

text \<open>
  \<open>jobs.ReleaseJobParams\<close>: the four fields \<open>PostRelease\<close> reads, each converted to a
  string there.
\<close>

record ReleaseJobParams =
  ServiceSpecs :: "string list"
  ImageSpec :: string
  Kind :: string
  Excludes :: "string list"

text \<open>\<open>postReleaseResponse\<close>: \<open>PostRelease\<close> reads its field \<open>ReleaseID\<close> only.\<close>

record postReleaseResponse =
  ReleaseID :: string

text \<open>The two loops that append to \<open>args\<close>.\<close>

fun appendServices :: "string list \<Rightarrow> string list \<Rightarrow> string list" where
  "appendServices args [] = args"
| "appendServices args (spec # specs) = appendServices (args @ [''service'', spec]) specs"

fun appendExcludes :: "string list \<Rightarrow> string list \<Rightarrow> string list" where
  "appendExcludes args [] = args"
| "appendExcludes args (ex # exs) = appendExcludes (args @ [''exclude'', ex]) exs"

definition PostRelease_args :: "ReleaseJobParams \<Rightarrow> string list" where
  "PostRelease_args s =
     appendExcludes
       (appendServices [''image'', ImageSpec s, ''kind'', Kind s] (ServiceSpecs s))
       (Excludes s)"

definition PostRelease ::
  "('b, postReleaseResponse) client \<Rightarrow> ReleaseJobParams \<Rightarrow> trace
     \<Rightarrow> (string \<times> result) \<times> trace" where
  "PostRelease c s tr =
     (case postWithResp c (Some \<lparr>ReleaseID = []\<rparr>) ''PostRelease'' None (PostRelease_args s) tr of
        (r, Some resp, tr') \<Rightarrow> ((ReleaseID resp, r), tr')
      | (r, None, tr') \<Rightarrow> (([], r), tr'))"

text \<open>The parameter list read as pairs.\<close>

fun pairs :: "string list \<Rightarrow> (string \<times> string) list" where
  "pairs (k # v # rest) = (k, v) # pairs rest"
| "pairs _ = []"

subsection \<open>Reading a trace\<close>

fun isTokenSet :: "event \<Rightarrow> bool" where
  "isTokenSet (EvTokenSet _) = True"
| "isTokenSet _ = False"

fun isDo :: "event \<Rightarrow> bool" where
  "isDo (EvDo _) = True"
| "isDo _ = False"

text \<open>The events that touch the response body only.\<close>

fun bodyEvent :: "event \<Rightarrow> bool" where
  "bodyEvent EvReadAll = True"
| "bodyEvent EvDecode = True"
| "bodyEvent (EvUnmarshal _) = True"
| "bodyEvent EvClose = True"
| "bodyEvent _ = False"

subsection \<open>A concrete client\<close>

text \<open>
  A client to run the primitives on: the transport answers every request with the given
  result, the resolver knows every route but \<open>Nowhere\<close>, the token adds a header, and
  the JSON functions accept texts that start with a bracket and store them with the
  given function.
\<close>

definition asciiSpace :: "char \<Rightarrow> bool" where
  "asciiSpace ch = (ch \<in> set [CHR '' '', CHR 0x09, CHR 0x0A, CHR 0x0B, CHR 0x0C, CHR 0x0D])"

definition asciiTrim :: "string \<Rightarrow> string" where
  "asciiTrim s = rev (dropWhile asciiSpace (rev (dropWhile asciiSpace s)))"

definition toyParse :: "bytes \<Rightarrow> err option" where
  "toyParse bs =
     (case bs of
        [] \<Rightarrow> Some (ExtError ''EOF'')
      | ch # _ \<Rightarrow> if ch = CHR ''['' then None else Some (ExtError ''invalid character''))"

definition withToken :: "request \<Rightarrow> request" where
  "withToken r = r\<lparr>req_header := (''Authorization'', ''Scope-Probe token=t'') # req_header r\<rparr>"

definition demoClientOf :: "(bytes \<Rightarrow> 'd) \<Rightarrow> err + response \<Rightarrow> (string, 'd) client" where
  "demoClientOf store answer =
     \<lparr>endpoint = ''http://flux'',
      makeURL = (\<lambda>ep route ps.
        if route = ''Nowhere'' then Inl (ExtError ''unknown route'')
        else Inr (ep @ ''/'' @ route)),
      Marshal = (\<lambda>b. if b = [] then Inl (ExtError ''unsupported value'') else Inr (''['' @ b @ '']'')),
      NewRequestErr = (\<lambda>m u. None),
      tokenSet = withToken,
      clientDo = (\<lambda>r. answer),
      TrimSpace = asciiTrim,
      DecodeInto = (\<lambda>b v.
        case body_readErr b of
          Some e \<Rightarrow> (Some e, v)
        | None \<Rightarrow> (case toyParse (body_data b) of Some e \<Rightarrow> (Some e, v) | None \<Rightarrow> (None, store (body_data b)))),
      DecodeNil = (\<lambda>b. ExtError ''Unmarshal(nil)''),
      UnmarshalInto = (\<lambda>bs v. case toyParse bs of Some e \<Rightarrow> (Some e, v) | None \<Rightarrow> (None, store bs)),
      UnmarshalAny = toyParse\<rparr>"

definition demoClient :: "err + response \<Rightarrow> (string, string) client" where
  "demoClient answer = demoClientOf (\<lambda>bs. bs) answer"

definition answerWith :: "int \<Rightarrow> string \<Rightarrow> bytes \<Rightarrow> err + response" where
  "answerWith code text bs =
     Inr \<lparr>resp_StatusCode = code, resp_Status = text,
          resp_Body = \<lparr>body_data = bs, body_readErr = None\<rparr>\<rparr>"

definition serverError :: "err + response" where
  "serverError = answerWith 500 ''500 Internal Server Error'' ('' boom'' @ [CHR 0x0A])"

definition demoGet :: "string \<Rightarrow> request" where
  "demoGet route =
     \<lparr>req_method = ''GET'', req_url = ''http://flux/'' @ route, req_payload = None,
      req_header = []\<rparr>"

definition demoPost :: "string \<Rightarrow> bytes \<Rightarrow> request" where
  "demoPost route bs =
     \<lparr>req_method = ''POST'', req_url = ''http://flux/'' @ route, req_payload = Some bs,
      req_header = []\<rparr>"

definition okAnswer :: "bytes \<Rightarrow> err + response" where
  "okAnswer bs = answerWith 200 ''200 OK'' bs"

section \<open>Properties\<close>

subsection \<open>The primitives case by case\<close>

text \<open>
  What \<open>executeRequest\<close> returns when the transport delivers a response, and what the
  callers make of it.
\<close>

lemma executeRequest_ok:
  "clientDo c req = Inr resp \<Longrightarrow> resp_StatusCode resp = 200 \<Longrightarrow>
   executeRequest c req tr = ((Some resp, None), tr @ [EvDo req])"
  by (simp add: executeRequest_def StatusOK_def)

lemma executeRequest_other:
  "clientDo c req = Inr resp \<Longrightarrow> resp_StatusCode resp \<noteq> 200 \<Longrightarrow>
   executeRequest c req tr =
     ((None, Some (APIErr \<lparr>StatusCode = resp_StatusCode resp, Status = resp_Status resp,
                           Body = TrimSpace c (body_data (resp_Body resp))\<rparr>)),
      tr @ [EvDo req, EvReadAll])"
  by (simp add: executeRequest_def StatusOK_def ReadAll_def)

lemma get_send_eq:
  "makeURL c (endpoint c) route ps = Inr u \<Longrightarrow>
   get c dest route ps tr = get_send c dest u (tr @ [EvMakeURL route ps])"
  by (simp add: get_def)

lemma postWithResp_send_eq:
  "makeURL c (endpoint c) route ps = Inr u \<Longrightarrow> fst (encodeBody c body []) = Inr bs \<Longrightarrow>
   postWithResp c dest route body ps tr =
     postWithResp_send c dest u bs (tr @ EvMakeURL route ps # snd (encodeBody c body []))"
  by (simp add: postWithResp_def encodeBody_def split: option.splits)

lemma get_send_other:
  "NewRequest c ''GET'' u None = Inr req \<Longrightarrow> clientDo c (tokenSet c req) = Inr resp \<Longrightarrow>
   resp_StatusCode resp \<noteq> 200 \<Longrightarrow>
   get_send c dest u tr =
     (Failure (Wrap (APIErr \<lparr>StatusCode = resp_StatusCode resp, Status = resp_Status resp,
                           Body = TrimSpace c (body_data (resp_Body resp))\<rparr>) ''executing HTTP request''),
      dest, tr @ [EvNewRequest ''GET'' u None, EvTokenSet req, EvDo (tokenSet c req), EvReadAll])"
  by (simp add: get_send_def executeRequest_other)

lemma postWithResp_send_other:
  "NewRequest c ''POST'' u (Some bs) = Inr req \<Longrightarrow> clientDo c (tokenSet c req) = Inr resp \<Longrightarrow>
   resp_StatusCode resp \<noteq> 200 \<Longrightarrow>
   postWithResp_send c dest u bs tr =
     (Failure (Wrap (APIErr \<lparr>StatusCode = resp_StatusCode resp, Status = resp_Status resp,
                           Body = TrimSpace c (body_data (resp_Body resp))\<rparr>) ''executing HTTP request''),
      dest, tr @ [EvNewRequest ''POST'' u (Some bs), EvTokenSet req, EvDo (tokenSet c req), EvReadAll])"
  by (simp add: postWithResp_send_def executeRequest_other)

lemma get_send_ok:
  "NewRequest c ''GET'' u None = Inr req \<Longrightarrow> clientDo c (tokenSet c req) = Inr resp \<Longrightarrow>
   resp_StatusCode resp = 200 \<Longrightarrow>
   get_send c dest u tr =
     (case jsonDecode c (resp_Body resp) dest of
        (Some e, dest') \<Rightarrow> Failure (Wrap e ''decoding response from server'')
      | (None, dest') \<Rightarrow> Success,
      snd (jsonDecode c (resp_Body resp) dest),
      tr @ [EvNewRequest ''GET'' u None, EvTokenSet req, EvDo (tokenSet c req), EvDecode, EvClose])"
  by (simp add: get_send_def executeRequest_ok get_decode_def split: prod.splits option.splits)

lemma postWithResp_send_ok:
  "NewRequest c ''POST'' u (Some bs) = Inr req \<Longrightarrow> clientDo c (tokenSet c req) = Inr resp \<Longrightarrow>
   resp_StatusCode resp = 200 \<Longrightarrow>
   postWithResp_send c dest u bs tr =
     (case postWithResp_read c dest resp
             (tr @ [EvNewRequest ''POST'' u (Some bs), EvTokenSet req, EvDo (tokenSet c req)]) of
        (r, dest', tr') \<Rightarrow> (r, dest', tr' @ [EvClose]))"
  by (simp add: postWithResp_send_def executeRequest_ok)

lemma postWithResp_read_empty:
  "ReadAll (resp_Body resp) = ([], None) \<Longrightarrow>
   postWithResp_read c dest resp tr = (Success, dest, tr @ [EvReadAll])"
  by (simp add: postWithResp_read_def)

lemma postWithResp_read_nonempty:
  "ReadAll (resp_Body resp) = (bs, None) \<Longrightarrow> bs \<noteq> [] \<Longrightarrow>
   postWithResp_read c dest resp tr =
     (case fst (jsonUnmarshal c bs dest) of
        Some e \<Rightarrow> Failure (Wrap e ''decoding response from server'')
      | None \<Rightarrow> Success,
      snd (jsonUnmarshal c bs dest), tr @ [EvReadAll, EvUnmarshal bs])"
  by (simp add: postWithResp_read_def split: prod.splits option.splits)

text \<open>
  Once the request is built, the trace goes on with the token, then the transport, and
  after that with events on the response body only.
\<close>

lemma postWithResp_send_trace:
  assumes "NewRequest c ''POST'' u (Some bs) = Inr req"
  shows "\<exists>rest. snd (snd (postWithResp_send c dest u bs tr)) =
           tr @ [EvNewRequest ''POST'' u (Some bs), EvTokenSet req, EvDo (tokenSet c req)] @ rest \<and>
           list_all bodyEvent rest"
  using assms
  by (simp add: postWithResp_send_def executeRequest_def postWithResp_read_def ReadAll_def
           split: sum.splits option.splits prod.splits)

lemma get_send_trace:
  assumes "NewRequest c ''GET'' u None = Inr req"
  shows "\<exists>rest. snd (snd (get_send c dest u tr)) =
           tr @ [EvNewRequest ''GET'' u None, EvTokenSet req, EvDo (tokenSet c req)] @ rest \<and>
           list_all bodyEvent rest"
  using assms
  by (simp add: get_send_def executeRequest_def get_decode_def ReadAll_def
           split: sum.splits option.splits prod.splits)

lemma filter_bodyEvent_TokenSet: "list_all bodyEvent rest \<Longrightarrow> filter isTokenSet rest = []"
  by (induction rest) (auto elim: bodyEvent.elims)

lemma filter_bodyEvent_Do: "list_all bodyEvent rest \<Longrightarrow> filter isDo rest = []"
  by (induction rest) (auto elim: bodyEvent.elims)

lemma postWithResp_starts_with_makeURL:
  "\<exists>rest. snd (snd (postWithResp c dest route body ps tr)) = tr @ EvMakeURL route ps # rest"
  by (simp add: postWithResp_def encodeBody_def postWithResp_send_def executeRequest_def
      postWithResp_read_def ReadAll_def split: sum.splits option.splits prod.splits)

text \<open>
  \<open>executeRequest\<close> never returns \<open>nil, nil\<close>, so no primitive dereferences a
  \<open>nil\<close> response.
\<close>

lemma get_send_no_panic: "fst (get_send c dest u tr) \<noteq> NilPanic"
  by (simp add: get_send_def executeRequest_def get_decode_def ReadAll_def
           split: sum.splits option.splits prod.splits)

lemma postWithResp_no_panic: "fst (postWithResp c dest route body ps tr) \<noteq> NilPanic"
  by (simp add: postWithResp_def encodeBody_def postWithResp_send_def executeRequest_def postWithResp_read_def ReadAll_def
           split: sum.splits option.splits prod.splits)

text \<open>
  The loops of \<open>PostRelease\<close> append one key and one value per element.
\<close>

lemma appendServices_flat:
  "appendServices args specs = args @ concat (map (\<lambda>spec. [''service'', spec]) specs)"
  by (induction specs arbitrary: args) simp_all

lemma appendExcludes_flat:
  "appendExcludes args exs = args @ concat (map (\<lambda>ex. [''exclude'', ex]) exs)"
  by (induction exs arbitrary: args) simp_all

lemma pairs_keyed: "pairs (concat (map (\<lambda>v. [k, v]) vs) @ rest) = map (Pair k) vs @ pairs rest"
  by (induction vs) simp_all

lemmas demo_defs = demoClient_def demoClientOf_def answerWith_def serverError_def okAnswer_def
  demoGet_def demoPost_def withToken_def asciiTrim_def asciiSpace_def toyParse_def NewRequest_def
  encodeBody_def jsonDecode_def jsonUnmarshal_def

subsection \<open>Status classification\<close>

text \<open>
  C1: when the transport delivers a response, \<open>executeRequest\<close> returns that response
  if its status code is 200. For any other code it returns no response and an
  \<open>APIError\<close> with that code, the status text, and the body that \<open>ReadAll\<close>
  delivered, trimmed by \<open>TrimSpace\<close>; it records the send and the read and nothing else.
  \<open>get\<close> and \<open>postWithResp\<close> then return that error wrapped, leave the destination
  as it was, and their traces hold no decoding event.
\<close>

theorem executeRequest_status_classification:
  assumes "clientDo c req = Inr resp"
  shows
    "executeRequest c req tr =
       (if resp_StatusCode resp = 200 then ((Some resp, None), tr @ [EvDo req])
        else ((None,
               Some (APIErr \<lparr>StatusCode = resp_StatusCode resp, Status = resp_Status resp,
                             Body = TrimSpace c (body_data (resp_Body resp))\<rparr>)),
              tr @ [EvDo req, EvReadAll])) \<and>
     (resp_StatusCode resp \<noteq> 200 \<longrightarrow>
        (makeURL c (endpoint c) route ps = Inr u \<and>
           NewRequest c ''GET'' u None = Inr req0 \<and> tokenSet c req0 = req \<longrightarrow>
           get c dest route ps tr =
             (Failure (Wrap (APIErr \<lparr>StatusCode = resp_StatusCode resp,
                                     Status = resp_Status resp,
                                     Body = TrimSpace c (body_data (resp_Body resp))\<rparr>)
                            ''executing HTTP request''),
              dest,
              tr @ [EvMakeURL route ps, EvNewRequest ''GET'' u None, EvTokenSet req0,
                    EvDo req, EvReadAll])) \<and>
        (makeURL c (endpoint c) route ps = Inr u \<and> fst (encodeBody c body []) = Inr bs \<and>
           NewRequest c ''POST'' u (Some bs) = Inr req0 \<and> tokenSet c req0 = req \<longrightarrow>
           postWithResp c dest route body ps tr =
             (Failure (Wrap (APIErr \<lparr>StatusCode = resp_StatusCode resp,
                                     Status = resp_Status resp,
                                     Body = TrimSpace c (body_data (resp_Body resp))\<rparr>)
                            ''executing HTTP request''),
              dest,
              tr @ EvMakeURL route ps # snd (encodeBody c body []) @
                [EvNewRequest ''POST'' u (Some bs), EvTokenSet req0, EvDo req, EvReadAll])))"
proof (intro conjI impI)
  show "executeRequest c req tr =
       (if resp_StatusCode resp = 200 then ((Some resp, None), tr @ [EvDo req])
        else ((None,
               Some (APIErr \<lparr>StatusCode = resp_StatusCode resp, Status = resp_Status resp,
                             Body = TrimSpace c (body_data (resp_Body resp))\<rparr>)),
              tr @ [EvDo req, EvReadAll]))"
    using assms by (simp add: executeRequest_ok executeRequest_other)
next
  assume ne: "resp_StatusCode resp \<noteq> 200"
    and h: "makeURL c (endpoint c) route ps = Inr u \<and>
           NewRequest c ''GET'' u None = Inr req0 \<and> tokenSet c req0 = req"
  with assms have "clientDo c (tokenSet c req0) = Inr resp" by simp
  with h ne show "get c dest route ps tr =
             (Failure (Wrap (APIErr \<lparr>StatusCode = resp_StatusCode resp,
                                     Status = resp_Status resp,
                                     Body = TrimSpace c (body_data (resp_Body resp))\<rparr>)
                            ''executing HTTP request''),
              dest,
              tr @ [EvMakeURL route ps, EvNewRequest ''GET'' u None, EvTokenSet req0,
                    EvDo req, EvReadAll])"
    by (simp add: get_send_eq get_send_other)
next
  assume ne: "resp_StatusCode resp \<noteq> 200"
    and h: "makeURL c (endpoint c) route ps = Inr u \<and> fst (encodeBody c body []) = Inr bs \<and>
           NewRequest c ''POST'' u (Some bs) = Inr req0 \<and> tokenSet c req0 = req"
  with assms have "clientDo c (tokenSet c req0) = Inr resp" by simp
  with h ne show "postWithResp c dest route body ps tr =
             (Failure (Wrap (APIErr \<lparr>StatusCode = resp_StatusCode resp,
                                     Status = resp_Status resp,
                                     Body = TrimSpace c (body_data (resp_Body resp))\<rparr>)
                            ''executing HTTP request''),
              dest,
              tr @ EvMakeURL route ps # snd (encodeBody c body []) @
                [EvNewRequest ''POST'' u (Some bs), EvTokenSet req0, EvDo req, EvReadAll])"
    by (simp add: postWithResp_send_eq postWithResp_send_other)
qed

text \<open>
  The theorem at a server that answers 500 with the body \<open>boom\<close> between a space and
  a line feed, for a GET and for a POST, and at a server that answers 200.
\<close>

theorem executeRequest_status_classification_witness:
  "clientDo (demoClient serverError) (withToken (demoGet ''ListServices'')) = serverError \<and>
   executeRequest (demoClient serverError :: (string, string) client)
       (withToken (demoGet ''ListServices'')) [] =
     ((None, Some (APIErr \<lparr>StatusCode = 500, Status = ''500 Internal Server Error'',
                            Body = ''boom''\<rparr>)),
      [EvDo (withToken (demoGet ''ListServices'')), EvReadAll]) \<and>
   get (demoClient serverError) (Some ''old'') ''ListServices'' [''namespace'', ''default''] [] =
     (Failure (Wrap (APIErr \<lparr>StatusCode = 500, Status = ''500 Internal Server Error'',
                             Body = ''boom''\<rparr>) ''executing HTTP request''),
      Some ''old'',
      [EvMakeURL ''ListServices'' [''namespace'', ''default''],
       EvNewRequest ''GET'' ''http://flux/ListServices'' None,
       EvTokenSet (demoGet ''ListServices''),
       EvDo (withToken (demoGet ''ListServices'')), EvReadAll]) \<and>
   postWithResp (demoClient serverError) (Some ''old'') ''PostRelease'' (Some ''x'') [] [] =
     (Failure (Wrap (APIErr \<lparr>StatusCode = 500, Status = ''500 Internal Server Error'',
                             Body = ''boom''\<rparr>) ''executing HTTP request''),
      Some ''old'',
      [EvMakeURL ''PostRelease'' [], EvMarshal,
       EvNewRequest ''POST'' ''http://flux/PostRelease'' (Some ''[x]''),
       EvTokenSet (demoPost ''PostRelease'' ''[x]''),
       EvDo (withToken (demoPost ''PostRelease'' ''[x]'')), EvReadAll]) \<and>
   executeRequest (demoClient (okAnswer ''[1]'') :: (string, string) client)
       (withToken (demoGet ''ListServices'')) [] =
     ((Some \<lparr>resp_StatusCode = 200, resp_Status = ''200 OK'',
              resp_Body = \<lparr>body_data = ''[1]'', body_readErr = None\<rparr>\<rparr>, None),
      [EvDo (withToken (demoGet ''ListServices''))])"
  using executeRequest_status_classification
    [where c = "demoClient serverError :: (string, string) client"
       and req = "withToken (demoGet ''ListServices'')"
       and resp = "\<lparr>resp_StatusCode = 500, resp_Status = ''500 Internal Server Error'',
                resp_Body = \<lparr>body_data = '' boom'' @ [CHR 0x0A], body_readErr = None\<rparr>\<rparr>"
       and tr = "[]" and dest = "Some ''old''" and route = "''ListServices''"
       and ps = "[''namespace'', ''default'']" and u = "''http://flux/ListServices''"
       and ?req0.0 = "demoGet ''ListServices''"]
    executeRequest_status_classification
    [where c = "demoClient serverError :: (string, string) client"
       and req = "withToken (demoPost ''PostRelease'' ''[x]'')"
       and resp = "\<lparr>resp_StatusCode = 500, resp_Status = ''500 Internal Server Error'',
                resp_Body = \<lparr>body_data = '' boom'' @ [CHR 0x0A], body_readErr = None\<rparr>\<rparr>"
       and tr = "[]" and dest = "Some ''old''" and route = "''PostRelease''"
       and ps = "[]" and u = "''http://flux/PostRelease''" and body = "Some ''x''"
       and bs = "''[x]''" and ?req0.0 = "demoPost ''PostRelease'' ''[x]''"]
    executeRequest_status_classification
    [where c = "demoClient (okAnswer ''[1]'') :: (string, string) client"
       and req = "withToken (demoGet ''ListServices'')"
       and resp = "\<lparr>resp_StatusCode = 200, resp_Status = ''200 OK'',
                resp_Body = \<lparr>body_data = ''[1]'', body_readErr = None\<rparr>\<rparr>"
       and tr = "[]"]
  by (simp add: demo_defs)

subsection \<open>Empty bodies\<close>

text \<open>
  C2: on a 200 response \<open>get\<close> always runs the decoder on the body, whatever the
  body holds, and fails with the decoder's error wrapped in \<open>decoding response from
  server\<close> when the decoder reports one, as it does for a body with no bytes.
  \<open>postWithResp\<close> reads the body first: with no bytes it returns success and the
  destination as it was, without a call of \<open>json.Unmarshal\<close>; otherwise it unmarshals
  the bytes into the destination and fails with the wrapped error if that fails.
\<close>

theorem empty_body_asymmetry:
  assumes "makeURL c (endpoint c) route ps = Inr u"
    and "resp_StatusCode resp = 200"
  shows
    "(NewRequest c ''GET'' u None = Inr req0 \<and> clientDo c (tokenSet c req0) = Inr resp \<longrightarrow>
        get c dest route ps tr =
          (case fst (jsonDecode c (resp_Body resp) dest) of
             Some e \<Rightarrow> Failure (Wrap e ''decoding response from server'')
           | None \<Rightarrow> Success,
           snd (jsonDecode c (resp_Body resp) dest),
           tr @ [EvMakeURL route ps, EvNewRequest ''GET'' u None, EvTokenSet req0,
                 EvDo (tokenSet c req0), EvDecode, EvClose])) \<and>
     (NewRequest c ''GET'' u None = Inr req0 \<and> clientDo c (tokenSet c req0) = Inr resp \<and>
      body_data (resp_Body resp) = [] \<and> fst (jsonDecode c (resp_Body resp) dest) = Some e \<longrightarrow>
        fst (get c dest route ps tr) = Failure (Wrap e ''decoding response from server'')) \<and>
     (fst (encodeBody c body []) = Inr bs \<and>
                 NewRequest c ''POST'' u (Some bs) = Inr req0 \<and>
                 clientDo c (tokenSet c req0) = Inr resp \<and>
                 body_readErr (resp_Body resp) = None \<longrightarrow>
        postWithResp c dest route body ps tr =
          (if body_data (resp_Body resp) = [] then
             (Success, dest,
              tr @ EvMakeURL route ps # snd (encodeBody c body []) @
                [EvNewRequest ''POST'' u (Some bs), EvTokenSet req0, EvDo (tokenSet c req0),
                 EvReadAll, EvClose])
           else
             (case fst (jsonUnmarshal c (body_data (resp_Body resp)) dest) of
                Some e \<Rightarrow> Failure (Wrap e ''decoding response from server'')
              | None \<Rightarrow> Success,
              snd (jsonUnmarshal c (body_data (resp_Body resp)) dest),
              tr @ EvMakeURL route ps # snd (encodeBody c body []) @
                [EvNewRequest ''POST'' u (Some bs), EvTokenSet req0, EvDo (tokenSet c req0),
                 EvReadAll, EvUnmarshal (body_data (resp_Body resp)), EvClose])))"
proof (intro conjI impI)
  assume "NewRequest c ''GET'' u None = Inr req0 \<and> clientDo c (tokenSet c req0) = Inr resp"
  with assms show "get c dest route ps tr =
          (case fst (jsonDecode c (resp_Body resp) dest) of
             Some e \<Rightarrow> Failure (Wrap e ''decoding response from server'')
           | None \<Rightarrow> Success,
           snd (jsonDecode c (resp_Body resp) dest),
           tr @ [EvMakeURL route ps, EvNewRequest ''GET'' u None, EvTokenSet req0,
                 EvDo (tokenSet c req0), EvDecode, EvClose])"
    by (simp add: get_send_eq get_send_ok split: prod.splits)
next
  assume "NewRequest c ''GET'' u None = Inr req0 \<and> clientDo c (tokenSet c req0) = Inr resp \<and>
      body_data (resp_Body resp) = [] \<and> fst (jsonDecode c (resp_Body resp) dest) = Some e"
  with assms show "fst (get c dest route ps tr) = Failure (Wrap e ''decoding response from server'')"
    by (cases "jsonDecode c (resp_Body resp) dest") (simp add: get_send_eq get_send_ok)
next
  assume h: "fst (encodeBody c body []) = Inr bs \<and>
                 NewRequest c ''POST'' u (Some bs) = Inr req0 \<and>
                 clientDo c (tokenSet c req0) = Inr resp \<and>
                 body_readErr (resp_Body resp) = None"
  then have ra: "ReadAll (resp_Body resp) = (body_data (resp_Body resp), None)"
    by (simp add: ReadAll_def)
  from h assms show "postWithResp c dest route body ps tr =
          (if body_data (resp_Body resp) = [] then
             (Success, dest,
              tr @ EvMakeURL route ps # snd (encodeBody c body []) @
                [EvNewRequest ''POST'' u (Some bs), EvTokenSet req0, EvDo (tokenSet c req0),
                 EvReadAll, EvClose])
           else
             (case fst (jsonUnmarshal c (body_data (resp_Body resp)) dest) of
                Some e \<Rightarrow> Failure (Wrap e ''decoding response from server'')
              | None \<Rightarrow> Success,
              snd (jsonUnmarshal c (body_data (resp_Body resp)) dest),
              tr @ EvMakeURL route ps # snd (encodeBody c body []) @
                [EvNewRequest ''POST'' u (Some bs), EvTokenSet req0, EvDo (tokenSet c req0),
                 EvReadAll, EvUnmarshal (body_data (resp_Body resp)), EvClose]))"
  proof (cases "body_data (resp_Body resp) = []")
    case True
    with ra have "ReadAll (resp_Body resp) = ([], None)" by simp
    with True h assms show ?thesis
      by (simp add: postWithResp_send_eq postWithResp_send_ok postWithResp_read_empty)
  next
    case False
    with h assms ra show ?thesis
      by (simp add: postWithResp_send_eq postWithResp_send_ok postWithResp_read_nonempty)
  qed
qed

text \<open>
  The theorem at a server that answers 200 with no bytes, with \<open>[1]\<close> and with
  \<open>oops\<close>; the decoder of the concrete client reports \<open>EOF\<close> for no bytes.
\<close>

theorem empty_body_asymmetry_witness:
  "clientDo (demoClient (okAnswer []) :: (string, string) client) (withToken (demoGet ''Status'')) =
     Inr \<lparr>resp_StatusCode = 200, resp_Status = ''200 OK'',
          resp_Body = \<lparr>body_data = [], body_readErr = None\<rparr>\<rparr> \<and>
   get (demoClient (okAnswer [])) (Some ''old'') ''Status'' [] [] =
     (Failure (Wrap (ExtError ''EOF'') ''decoding response from server''), Some ''old'',
      [EvMakeURL ''Status'' [], EvNewRequest ''GET'' ''http://flux/Status'' None,
       EvTokenSet (demoGet ''Status''), EvDo (withToken (demoGet ''Status'')),
       EvDecode, EvClose]) \<and>
   fst (jsonDecode (demoClient (okAnswer []))
          \<lparr>body_data = [], body_readErr = None\<rparr> (Some ''old'')) = Some (ExtError ''EOF'') \<and>
   fst (get (demoClient (okAnswer [])) (Some ''old'') ''Status'' [] []) =
     Failure (Wrap (ExtError ''EOF'') ''decoding response from server'') \<and>
   postWithResp (demoClient (okAnswer []) :: (string, string) client) (Some ''old'') ''Status''
       None [] [] =
     (Success, Some ''old'',
      [EvMakeURL ''Status'' [], EvNewRequest ''POST'' ''http://flux/Status'' (Some []),
       EvTokenSet (demoPost ''Status'' []), EvDo (withToken (demoPost ''Status'' [])),
       EvReadAll, EvClose]) \<and>
   postWithResp (demoClient (okAnswer ''[1]'') :: (string, string) client) (Some ''old'') ''Status''
       None [] [] =
     (Success, Some ''[1]'',
      [EvMakeURL ''Status'' [], EvNewRequest ''POST'' ''http://flux/Status'' (Some []),
       EvTokenSet (demoPost ''Status'' []), EvDo (withToken (demoPost ''Status'' [])),
       EvReadAll, EvUnmarshal ''[1]'', EvClose]) \<and>
   postWithResp (demoClient (okAnswer ''oops'') :: (string, string) client) (Some ''old'') ''Status''
       None [] [] =
     (Failure (Wrap (ExtError ''invalid character'') ''decoding response from server''),
      Some ''old'',
      [EvMakeURL ''Status'' [], EvNewRequest ''POST'' ''http://flux/Status'' (Some []),
       EvTokenSet (demoPost ''Status'' []), EvDo (withToken (demoPost ''Status'' [])),
       EvReadAll, EvUnmarshal ''oops'', EvClose])"
  using empty_body_asymmetry
    [where c = "demoClient (okAnswer []) :: (string, string) client" and route = "''Status''"
       and ps = "[]" and u = "''http://flux/Status''" and dest = "Some ''old''" and tr = "[]"
       and resp = "\<lparr>resp_StatusCode = 200, resp_Status = ''200 OK'',
          resp_Body = \<lparr>body_data = [], body_readErr = None\<rparr>\<rparr>"
       and ?req0.0 = "demoGet ''Status''" and e = "ExtError ''EOF''"]
    empty_body_asymmetry
    [where c = "demoClient (okAnswer []) :: (string, string) client" and route = "''Status''"
       and ps = "[]" and u = "''http://flux/Status''" and dest = "Some ''old''" and tr = "[]"
       and resp = "\<lparr>resp_StatusCode = 200, resp_Status = ''200 OK'',
          resp_Body = \<lparr>body_data = [], body_readErr = None\<rparr>\<rparr>"
       and body = None and bs = "[]" and ?req0.0 = "demoPost ''Status'' []"]
    empty_body_asymmetry
    [where c = "demoClient (okAnswer ''[1]'') :: (string, string) client" and route = "''Status''"
       and ps = "[]" and u = "''http://flux/Status''" and dest = "Some ''old''" and tr = "[]"
       and resp = "\<lparr>resp_StatusCode = 200, resp_Status = ''200 OK'',
          resp_Body = \<lparr>body_data = ''[1]'', body_readErr = None\<rparr>\<rparr>"
       and body = None and bs = "[]" and ?req0.0 = "demoPost ''Status'' []"]
    empty_body_asymmetry
    [where c = "demoClient (okAnswer ''oops'') :: (string, string) client" and route = "''Status''"
       and ps = "[]" and u = "''http://flux/Status''" and dest = "Some ''old''" and tr = "[]"
       and resp = "\<lparr>resp_StatusCode = 200, resp_Status = ''200 OK'',
          resp_Body = \<lparr>body_data = ''oops'', body_readErr = None\<rparr>\<rparr>"
       and body = None and bs = "[]" and ?req0.0 = "demoPost ''Status'' []"]
  by (simp add: demo_defs)

subsection \<open>Closing the response body\<close>

text \<open>
  C3: the body of a response with a status other than 200 is read and never closed.
  \<open>executeRequest\<close> returns no response in that case, so the callers return before
  their deferred close is set up. At a server that answers 500 the trace of \<open>get\<close>
  and of \<open>post\<close> holds no close event, while on a 200 answer it holds one.
\<close>

theorem non200_response_body_left_open:
  "get (demoClient serverError) (Some ''old'') ''ListServices'' [''namespace'', ''default''] [] =
     (Failure (Wrap (APIErr \<lparr>StatusCode = 500, Status = ''500 Internal Server Error'',
                             Body = ''boom''\<rparr>) ''executing HTTP request''),
      Some ''old'',
      [EvMakeURL ''ListServices'' [''namespace'', ''default''],
       EvNewRequest ''GET'' ''http://flux/ListServices'' None,
       EvTokenSet (demoGet ''ListServices''),
       EvDo (withToken (demoGet ''ListServices'')), EvReadAll]) \<and>
   count_list (snd (snd (get (demoClient serverError) (Some ''old'') ''ListServices''
                           [''namespace'', ''default''] []))) EvClose = 0 \<and>
   count_list (snd (snd (post (demoClient serverError :: (string, string) client) ''Lock''
                           [''service'', ''s''] []))) EvClose = 0 \<and>
   count_list (snd (snd (get (demoClient (okAnswer ''[1]'')) (Some ''old'') ''ListServices''
                           [''namespace'', ''default''] []))) EvClose = 1"
  by (simp add: demo_defs get_def get_send_def get_decode_def executeRequest_def ReadAll_def
      StatusOK_def post_def postWithBody_def postWithResp_def postWithResp_send_def)

subsection \<open>Request bodies\<close>

text \<open>
  C4: with a resolved URL, a body value that \<open>json.Marshal\<close> rejects makes
  \<open>postWithResp\<close> return the error wrapped in \<open>encoding request body\<close> with no
  request built or sent. A body value that is encoded becomes the payload of the request.
  With a \<open>nil\<close> body the request has a payload of no bytes and \<open>json.Marshal\<close>
  is not called.
\<close>

theorem post_body_encoding:
  assumes "makeURL c (endpoint c) route ps = Inr u"
  shows
    "(Marshal c b = Inl e \<longrightarrow>
        postWithResp c dest route (Some b) ps tr =
          (Failure (Wrap e ''encoding request body''), dest, tr @ [EvMakeURL route ps, EvMarshal])) \<and>
     (Marshal c b = Inr bs \<and> NewRequest c ''POST'' u (Some bs) = Inr req0 \<longrightarrow>
        req_payload req0 = Some bs \<and>
        (\<exists>rest. snd (snd (postWithResp c dest route (Some b) ps tr)) =
                  tr @ [EvMakeURL route ps, EvMarshal, EvNewRequest ''POST'' u (Some bs),
                        EvTokenSet req0, EvDo (tokenSet c req0)] @ rest \<and>
                list_all bodyEvent rest)) \<and>
     (NewRequest c ''POST'' u (Some []) = Inr req0 \<longrightarrow>
        req_payload req0 = Some [] \<and>
        (\<exists>rest. snd (snd (postWithResp c dest route None ps tr)) =
                  tr @ [EvMakeURL route ps, EvNewRequest ''POST'' u (Some []),
                        EvTokenSet req0, EvDo (tokenSet c req0)] @ rest \<and>
                list_all bodyEvent rest))"
proof (intro conjI impI)
  assume "Marshal c b = Inl e"
  with assms show "postWithResp c dest route (Some b) ps tr =
          (Failure (Wrap e ''encoding request body''), dest, tr @ [EvMakeURL route ps, EvMarshal])"
    by (simp add: postWithResp_def encodeBody_def)
next
  assume h: "Marshal c b = Inr bs \<and> NewRequest c ''POST'' u (Some bs) = Inr req0"
  then show "req_payload req0 = Some bs"
    by (auto simp add: NewRequest_def split: option.splits)
  from h have "fst (encodeBody c (Some b) []) = Inr bs" by (simp add: encodeBody_def)
  from postWithResp_send_eq [OF assms this]
  have "postWithResp c dest route (Some b) ps tr =
          postWithResp_send c dest u bs (tr @ [EvMakeURL route ps, EvMarshal])"
    by (simp add: encodeBody_def)
  with postWithResp_send_trace [of c u bs req0 dest "tr @ [EvMakeURL route ps, EvMarshal]"] h
  show "\<exists>rest. snd (snd (postWithResp c dest route (Some b) ps tr)) =
                  tr @ [EvMakeURL route ps, EvMarshal, EvNewRequest ''POST'' u (Some bs),
                        EvTokenSet req0, EvDo (tokenSet c req0)] @ rest \<and>
                list_all bodyEvent rest"
    by simp
next
  assume h: "NewRequest c ''POST'' u (Some []) = Inr req0"
  then show "req_payload req0 = Some []"
    by (auto simp add: NewRequest_def split: option.splits)
  have "fst (encodeBody c None []) = Inr []" by (simp add: encodeBody_def)
  from postWithResp_send_eq [OF assms this]
  have "postWithResp c dest route None ps tr =
          postWithResp_send c dest u [] (tr @ [EvMakeURL route ps])"
    by (simp add: encodeBody_def)
  with postWithResp_send_trace [of c u "[]" req0 dest "tr @ [EvMakeURL route ps]"] h
  show "\<exists>rest. snd (snd (postWithResp c dest route None ps tr)) =
                  tr @ [EvMakeURL route ps, EvNewRequest ''POST'' u (Some []),
                        EvTokenSet req0, EvDo (tokenSet c req0)] @ rest \<and>
                list_all bodyEvent rest"
    by simp
qed

text \<open>
  The theorem for a rejected value, an encoded value and a \<open>nil\<close> body.
\<close>

theorem post_body_encoding_witness:
  "makeURL (demoClient (okAnswer []) :: (string, string) client)
      (endpoint (demoClient (okAnswer []) :: (string, string) client)) ''SetConfig'' [] =
     Inr ''http://flux/SetConfig'' \<and>
   Marshal (demoClient (okAnswer []) :: (string, string) client) [] =
     Inl (ExtError ''unsupported value'') \<and>
   postWithResp (demoClient (okAnswer []) :: (string, string) client) None ''SetConfig''
       (Some []) [] [] =
     (Failure (Wrap (ExtError ''unsupported value'') ''encoding request body''), None,
      [EvMakeURL ''SetConfig'' [], EvMarshal]) \<and>
   req_payload (demoPost ''SetConfig'' ''[x]'') = Some ''[x]'' \<and>
   (\<exists>rest. snd (snd (postWithResp (demoClient (okAnswer []) :: (string, string) client) None
                       ''SetConfig'' (Some ''x'') [] [])) =
             [EvMakeURL ''SetConfig'' [], EvMarshal,
              EvNewRequest ''POST'' ''http://flux/SetConfig'' (Some ''[x]''),
              EvTokenSet (demoPost ''SetConfig'' ''[x]''),
              EvDo (withToken (demoPost ''SetConfig'' ''[x]''))] @ rest \<and>
           list_all bodyEvent rest) \<and>
   req_payload (demoPost ''SetConfig'' []) = Some [] \<and>
   (\<exists>rest. snd (snd (postWithResp (demoClient (okAnswer []) :: (string, string) client) None
                       ''SetConfig'' None [] [])) =
             [EvMakeURL ''SetConfig'' [],
              EvNewRequest ''POST'' ''http://flux/SetConfig'' (Some []),
              EvTokenSet (demoPost ''SetConfig'' []),
              EvDo (withToken (demoPost ''SetConfig'' []))] @ rest \<and>
           list_all bodyEvent rest)"
  using post_body_encoding
    [where c = "demoClient (okAnswer []) :: (string, string) client" and route = "''SetConfig''"
       and ps = "[]" and u = "''http://flux/SetConfig''" and dest = None and tr = "[]"
       and b = "[]" and e = "ExtError ''unsupported value''"]
    post_body_encoding
    [where c = "demoClient (okAnswer []) :: (string, string) client" and route = "''SetConfig''"
       and ps = "[]" and u = "''http://flux/SetConfig''" and dest = None and tr = "[]"
       and b = "''x''" and bs = "''[x]''" and ?req0.0 = "demoPost ''SetConfig'' ''[x]''"]
    post_body_encoding
    [where c = "demoClient (okAnswer []) :: (string, string) client" and route = "''SetConfig''"
       and ps = "[]" and u = "''http://flux/SetConfig''" and dest = None and tr = "[]"
       and ?req0.0 = "demoPost ''SetConfig'' []"]
  by (simp add: demo_defs)

subsection \<open>The three POST primitives\<close>

text \<open>
  C5: \<open>post\<close> returns what \<open>postWithResp\<close> returns for a \<open>nil\<close> destination and a
  \<open>nil\<close> body, and \<open>postWithBody\<close> what \<open>postWithResp\<close> returns for a \<open>nil\<close>
  destination, for every route, body, parameter list and trace so far.
\<close>

theorem post_is_postWithResp:
  "post c route queryParams tr = postWithResp c None route None queryParams tr \<and>
   postWithBody c route body queryParams tr = postWithResp c None route body queryParams tr"
  by (simp add: post_def postWithBody_def)

subsection \<open>Credentials\<close>

text \<open>
  C6: when the URL is resolved, the body is encoded and the request is built, the trace
  of \<open>get\<close> and of \<open>postWithResp\<close> holds \<open>token.Set\<close> on that request exactly once,
  the transport exactly once, right after it and on the request that \<open>token.Set\<close>
  left, and from there on events on the response body only.
\<close>

theorem token_set_once_before_send:
  assumes "makeURL c (endpoint c) route ps = Inr u"
  shows
    "(NewRequest c ''GET'' u None = Inr req0 \<longrightarrow>
        (\<exists>rest. snd (snd (get c dest route ps [])) =
                  [EvMakeURL route ps, EvNewRequest ''GET'' u None,
                   EvTokenSet req0, EvDo (tokenSet c req0)] @ rest \<and>
                list_all bodyEvent rest) \<and>
        filter isTokenSet (snd (snd (get c dest route ps []))) = [EvTokenSet req0] \<and>
        filter isDo (snd (snd (get c dest route ps []))) = [EvDo (tokenSet c req0)]) \<and>
     (fst (encodeBody c body []) = Inr bs \<and>
                 NewRequest c ''POST'' u (Some bs) = Inr req0 \<longrightarrow>
        (\<exists>rest. snd (snd (postWithResp c dest route body ps [])) =
                  EvMakeURL route ps # snd (encodeBody c body []) @
                  [EvNewRequest ''POST'' u (Some bs),
                   EvTokenSet req0, EvDo (tokenSet c req0)] @ rest \<and>
                list_all bodyEvent rest) \<and>
        filter isTokenSet (snd (snd (postWithResp c dest route body ps []))) = [EvTokenSet req0] \<and>
        filter isDo (snd (snd (postWithResp c dest route body ps []))) = [EvDo (tokenSet c req0)])"
proof (intro conjI impI)
  assume h: "NewRequest c ''GET'' u None = Inr req0"
  from get_send_trace [OF h, of dest "[EvMakeURL route ps]"] get_send_eq [OF assms, of dest "[]"]
  obtain rest where tr: "snd (snd (get c dest route ps [])) =
      [EvMakeURL route ps, EvNewRequest ''GET'' u None, EvTokenSet req0, EvDo (tokenSet c req0)] @ rest"
    and rest: "list_all bodyEvent rest"
    by auto
  from tr rest show "\<exists>rest. snd (snd (get c dest route ps [])) =
                  [EvMakeURL route ps, EvNewRequest ''GET'' u None,
                   EvTokenSet req0, EvDo (tokenSet c req0)] @ rest \<and>
                list_all bodyEvent rest"
    by blast
  from tr rest show "filter isTokenSet (snd (snd (get c dest route ps []))) = [EvTokenSet req0]"
    by (simp add: filter_bodyEvent_TokenSet)
  from tr rest show "filter isDo (snd (snd (get c dest route ps []))) = [EvDo (tokenSet c req0)]"
    by (simp add: filter_bodyEvent_Do)
next
  assume h: "fst (encodeBody c body []) = Inr bs \<and> NewRequest c ''POST'' u (Some bs) = Inr req0"
  then have enc: "fst (encodeBody c body []) = Inr bs"
    and nr: "NewRequest c ''POST'' u (Some bs) = Inr req0" by simp_all
  have pre: "filter isTokenSet (snd (encodeBody c body [])) = []"
    "filter isDo (snd (encodeBody c body [])) = []"
    by (simp_all add: encodeBody_def split: option.splits)
  from postWithResp_send_trace [OF nr, of dest "EvMakeURL route ps # snd (encodeBody c body [])"]
    postWithResp_send_eq [OF assms enc, of dest "[]"]
  obtain rest where tr: "snd (snd (postWithResp c dest route body ps [])) =
      EvMakeURL route ps # snd (encodeBody c body []) @
      [EvNewRequest ''POST'' u (Some bs), EvTokenSet req0, EvDo (tokenSet c req0)] @ rest"
    and rest: "list_all bodyEvent rest"
    by auto
  from tr rest show "\<exists>rest. snd (snd (postWithResp c dest route body ps [])) =
                  EvMakeURL route ps # snd (encodeBody c body []) @
                  [EvNewRequest ''POST'' u (Some bs),
                   EvTokenSet req0, EvDo (tokenSet c req0)] @ rest \<and>
                list_all bodyEvent rest"
    by blast
  from tr rest pre
  show "filter isTokenSet (snd (snd (postWithResp c dest route body ps []))) = [EvTokenSet req0]"
    by (simp add: filter_bodyEvent_TokenSet)
  from tr rest pre
  show "filter isDo (snd (snd (postWithResp c dest route body ps []))) = [EvDo (tokenSet c req0)]"
    by (simp add: filter_bodyEvent_Do)
qed

text \<open>
  The theorem for a GET and for a POST with a body.
\<close>

theorem token_set_once_before_send_witness:
  "makeURL (demoClient serverError :: (string, string) client)
      (endpoint (demoClient serverError :: (string, string) client)) ''Status'' [] =
     Inr ''http://flux/Status'' \<and>
   NewRequest (demoClient serverError :: (string, string) client) ''GET'' ''http://flux/Status'' None =
     Inr (demoGet ''Status'') \<and>
   filter isTokenSet
     (snd (snd (get (demoClient serverError :: (string, string) client) (Some ''old'')
                  ''Status'' [] []))) =
     [EvTokenSet (demoGet ''Status'')] \<and>
   filter isDo
     (snd (snd (get (demoClient serverError :: (string, string) client) (Some ''old'')
                  ''Status'' [] []))) =
     [EvDo (withToken (demoGet ''Status''))] \<and>
   fst (encodeBody (demoClient serverError :: (string, string) client) (Some ''x'') []) =
     Inr ''[x]'' \<and>
   filter isTokenSet
     (snd (snd (postWithResp (demoClient serverError :: (string, string) client) (Some ''old'')
                  ''Status'' (Some ''x'') [] []))) =
     [EvTokenSet (demoPost ''Status'' ''[x]'')] \<and>
   filter isDo
     (snd (snd (postWithResp (demoClient serverError :: (string, string) client) (Some ''old'')
                  ''Status'' (Some ''x'') [] []))) =
     [EvDo (withToken (demoPost ''Status'' ''[x]''))]"
  using token_set_once_before_send
    [where c = "demoClient serverError :: (string, string) client" and route = "''Status''"
       and ps = "[]" and u = "''http://flux/Status''" and dest = "Some ''old''"
       and ?req0.0 = "demoGet ''Status''"]
    token_set_once_before_send
    [where c = "demoClient serverError :: (string, string) client" and route = "''Status''"
       and ps = "[]" and u = "''http://flux/Status''" and dest = "Some ''old''"
       and body = "Some ''x''" and bs = "''[x]''" and ?req0.0 = "demoPost ''Status'' ''[x]''"]
  by (simp add: demo_defs)

subsection \<open>URL construction failures\<close>

text \<open>
  C7: when the resolver fails, every primitive returns its error wrapped in
  \<open>constructing URL\<close>, the destination is as it was, and the call of the resolver is
  the only event: no request is built, no token is set, nothing is sent.
\<close>

theorem url_failure_returns_immediately:
  assumes "makeURL c (endpoint c) route ps = Inl e"
  shows "get c dest route ps tr =
           (Failure (Wrap e ''constructing URL''), dest, tr @ [EvMakeURL route ps]) \<and>
         postWithResp c dest route body ps tr =
           (Failure (Wrap e ''constructing URL''), dest, tr @ [EvMakeURL route ps]) \<and>
         postWithBody c route body ps tr =
           (Failure (Wrap e ''constructing URL''), None, tr @ [EvMakeURL route ps]) \<and>
         post c route ps tr =
           (Failure (Wrap e ''constructing URL''), None, tr @ [EvMakeURL route ps])"
  using assms by (simp add: get_def postWithResp_def postWithBody_def post_def)

text \<open>
  The theorem at a route that the resolver does not know.
\<close>

theorem url_failure_returns_immediately_witness:
  "makeURL (demoClient serverError :: (string, string) client)
      (endpoint (demoClient serverError :: (string, string) client)) ''Nowhere'' [''id'', ''7''] =
     Inl (ExtError ''unknown route'') \<and>
   get (demoClient serverError :: (string, string) client) (Some ''old'') ''Nowhere''
       [''id'', ''7''] [] =
     (Failure (Wrap (ExtError ''unknown route'') ''constructing URL''), Some ''old'',
      [EvMakeURL ''Nowhere'' [''id'', ''7'']]) \<and>
   postWithResp (demoClient serverError :: (string, string) client) (Some ''old'') ''Nowhere''
       (Some ''x'') [''id'', ''7''] [] =
     (Failure (Wrap (ExtError ''unknown route'') ''constructing URL''), Some ''old'',
      [EvMakeURL ''Nowhere'' [''id'', ''7'']]) \<and>
   post (demoClient serverError :: (string, string) client) ''Nowhere'' [''id'', ''7''] [] =
     (Failure (Wrap (ExtError ''unknown route'') ''constructing URL''), None,
      [EvMakeURL ''Nowhere'' [''id'', ''7'']])"
  using url_failure_returns_immediately
    [where c = "demoClient serverError :: (string, string) client" and route = "''Nowhere''"
       and ps = "[''id'', ''7'']" and e = "ExtError ''unknown route''" and dest = "Some ''old''"
       and body = "Some ''x''" and tr = "[]"]
  by (simp add: demo_defs)

subsection \<open>The parameter list of PostRelease\<close>

text \<open>
  C8: \<open>PostRelease\<close> passes to the resolver the list \<open>image\<close>, the image spec,
  \<open>kind\<close>, the kind, then \<open>service\<close> and the spec for each service spec in order,
  then \<open>exclude\<close> and the value for each exclude in order. Read as pairs, every
  element of the two lists has a pair of its own, repeated or not.
\<close>

theorem PostRelease_parameter_list:
  "PostRelease_args s =
     [''image'', ImageSpec s, ''kind'', Kind s] @
     concat (map (\<lambda>spec. [''service'', spec]) (ServiceSpecs s)) @
     concat (map (\<lambda>ex. [''exclude'', ex]) (Excludes s)) \<and>
   pairs (PostRelease_args s) =
     (''image'', ImageSpec s) # (''kind'', Kind s) #
     map (Pair ''service'') (ServiceSpecs s) @ map (Pair ''exclude'') (Excludes s) \<and>
   (\<exists>rest. snd (PostRelease c s tr) = tr @ EvMakeURL ''PostRelease'' (PostRelease_args s) # rest)"
proof (intro conjI)
  show flat: "PostRelease_args s =
     [''image'', ImageSpec s, ''kind'', Kind s] @
     concat (map (\<lambda>spec. [''service'', spec]) (ServiceSpecs s)) @
     concat (map (\<lambda>ex. [''exclude'', ex]) (Excludes s))"
    by (simp add: PostRelease_args_def appendServices_flat appendExcludes_flat)
  have "pairs (concat (map (\<lambda>ex. [''exclude'', ex]) (Excludes s)) @ []) =
          map (Pair ''exclude'') (Excludes s) @ pairs []"
    by (rule pairs_keyed)
  then show "pairs (PostRelease_args s) =
     (''image'', ImageSpec s) # (''kind'', Kind s) #
     map (Pair ''service'') (ServiceSpecs s) @ map (Pair ''exclude'') (Excludes s)"
    by (simp add: flat pairs_keyed)
  from postWithResp_starts_with_makeURL
    [of c "Some \<lparr>ReleaseID = []\<rparr>" "''PostRelease''" None "PostRelease_args s" tr]
  show "\<exists>rest. snd (PostRelease c s tr) = tr @ EvMakeURL ''PostRelease'' (PostRelease_args s) # rest"
    by (auto simp add: PostRelease_def split: prod.splits option.splits)
qed

text \<open>
  The theorem for a job with a repeated service spec and a repeated exclude.
\<close>

theorem PostRelease_parameter_list_witness:
  "PostRelease_args \<lparr>ServiceSpecs = [''a'', ''b'', ''a''], ImageSpec = ''img'', Kind = ''plan'',
                     Excludes = [''x'', ''x'']\<rparr> =
     [''image'', ''img'', ''kind'', ''plan'', ''service'', ''a'', ''service'', ''b'',
      ''service'', ''a'', ''exclude'', ''x'', ''exclude'', ''x''] \<and>
   pairs (PostRelease_args \<lparr>ServiceSpecs = [''a'', ''b'', ''a''], ImageSpec = ''img'',
                            Kind = ''plan'', Excludes = [''x'', ''x'']\<rparr>) =
     [(''image'', ''img''), (''kind'', ''plan''), (''service'', ''a''), (''service'', ''b''),
      (''service'', ''a''), (''exclude'', ''x''), (''exclude'', ''x'')] \<and>
   (\<exists>rest. snd (PostRelease (demoClientOf (\<lambda>bs. \<lparr>ReleaseID = bs\<rparr>) (okAnswer ''[7]''))
                  \<lparr>ServiceSpecs = [''a'', ''b'', ''a''], ImageSpec = ''img'', Kind = ''plan'',
                   Excludes = [''x'', ''x'']\<rparr> []) =
           EvMakeURL ''PostRelease''
             [''image'', ''img'', ''kind'', ''plan'', ''service'', ''a'', ''service'', ''b'',
              ''service'', ''a'', ''exclude'', ''x'', ''exclude'', ''x''] # rest)"
  using PostRelease_parameter_list
    [where s = "\<lparr>ServiceSpecs = [''a'', ''b'', ''a''], ImageSpec = ''img'', Kind = ''plan'',
                     Excludes = [''x'', ''x'']\<rparr>"
       and c = "demoClientOf (\<lambda>bs. \<lparr>ReleaseID = bs\<rparr>) (okAnswer ''[7]'')" and tr = "[]"]
  by (elim conjE) simp

subsection \<open>Response or error, never both\<close>

text \<open>
  C9: whatever \<open>executeRequest\<close> returns, an error comes with no response, and a
  response comes with no error and has the status code 200.
\<close>

theorem executeRequest_never_both:
  assumes "executeRequest c req tr = ((r, e), tr')"
  shows "(e \<noteq> None \<longrightarrow> r = None) \<and>
         (r \<noteq> None \<longrightarrow> e = None \<and> (\<exists>resp. r = Some resp \<and> resp_StatusCode resp = 200))"
  using assms
  by (auto simp add: executeRequest_def StatusOK_def ReadAll_def split: sum.splits if_splits)

text \<open>
  The theorem at a server that answers 500 and at one that answers 200.
\<close>

theorem executeRequest_never_both_witness:
  "executeRequest (demoClient serverError :: (string, string) client)
       (withToken (demoGet ''ListServices'')) [] =
     ((None, Some (APIErr \<lparr>StatusCode = 500, Status = ''500 Internal Server Error'',
                            Body = ''boom''\<rparr>)),
      [EvDo (withToken (demoGet ''ListServices'')), EvReadAll]) \<and>
   executeRequest (demoClient (okAnswer ''[1]'') :: (string, string) client)
       (withToken (demoGet ''ListServices'')) [] =
     ((Some \<lparr>resp_StatusCode = 200, resp_Status = ''200 OK'',
              resp_Body = \<lparr>body_data = ''[1]'', body_readErr = None\<rparr>\<rparr>, None),
      [EvDo (withToken (demoGet ''ListServices''))]) \<and>
   (\<exists>resp. Some \<lparr>resp_StatusCode = 200, resp_Status = ''200 OK'',
              resp_Body = \<lparr>body_data = ''[1]'', body_readErr = None\<rparr>\<rparr> = Some resp \<and>
      resp_StatusCode resp = 200)"
proof -
  have a: "executeRequest (demoClient serverError :: (string, string) client)
       (withToken (demoGet ''ListServices'')) [] =
     ((None, Some (APIErr \<lparr>StatusCode = 500, Status = ''500 Internal Server Error'',
                            Body = ''boom''\<rparr>)),
      [EvDo (withToken (demoGet ''ListServices'')), EvReadAll])"
    by (simp add: demo_defs executeRequest_def ReadAll_def StatusOK_def)
  have b: "executeRequest (demoClient (okAnswer ''[1]'') :: (string, string) client)
       (withToken (demoGet ''ListServices'')) [] =
     ((Some \<lparr>resp_StatusCode = 200, resp_Status = ''200 OK'',
              resp_Body = \<lparr>body_data = ''[1]'', body_readErr = None\<rparr>\<rparr>, None),
      [EvDo (withToken (demoGet ''ListServices''))])"
    by (simp add: demo_defs executeRequest_def ReadAll_def StatusOK_def)
  from executeRequest_never_both [OF a] executeRequest_never_both [OF b] a b
  show ?thesis by simp
qed

subsection \<open>A discarded destination\<close>

text \<open>
  C10: \<open>postWithBody\<close>, and \<open>post\<close> with it, on a 200 response whose body is read
  without error: with no bytes the call succeeds; otherwise the bytes are parsed by
  \<open>json.Unmarshal\<close> into the empty local interface, and the call fails with the
  wrapped parse error if there is one and succeeds if there is none.
\<close>

theorem discarded_destination_still_parsed:
  assumes "makeURL c (endpoint c) route ps = Inr u"
    and "fst (encodeBody c body []) = Inr bs"
    and "NewRequest c ''POST'' u (Some bs) = Inr req0"
    and "clientDo c (tokenSet c req0) = Inr resp"
    and "resp_StatusCode resp = 200"
    and "body_readErr (resp_Body resp) = None"
  shows
    "postWithBody c route body ps tr =
       (if body_data (resp_Body resp) = [] then
          (Success, None,
           tr @ EvMakeURL route ps # snd (encodeBody c body []) @
             [EvNewRequest ''POST'' u (Some bs), EvTokenSet req0, EvDo (tokenSet c req0),
              EvReadAll, EvClose])
        else
          (case UnmarshalAny c (body_data (resp_Body resp)) of
             Some e \<Rightarrow> Failure (Wrap e ''decoding response from server'')
           | None \<Rightarrow> Success,
           None,
           tr @ EvMakeURL route ps # snd (encodeBody c body []) @
             [EvNewRequest ''POST'' u (Some bs), EvTokenSet req0, EvDo (tokenSet c req0),
              EvReadAll, EvUnmarshal (body_data (resp_Body resp)), EvClose])) \<and>
     (body = None \<longrightarrow> post c route ps tr = postWithBody c route body ps tr)"
proof -
  have ra: "ReadAll (resp_Body resp) = (body_data (resp_Body resp), None)"
    using assms(6) by (simp add: ReadAll_def)
  have un: "jsonUnmarshal c x None = (UnmarshalAny c x, None)" for x
    by (simp add: jsonUnmarshal_def)
  show ?thesis
  proof (cases "body_data (resp_Body resp) = []")
    case True
    with ra have "ReadAll (resp_Body resp) = ([], None)" by simp
    with True assms show ?thesis
      by (simp add: postWithBody_def post_def postWithResp_send_eq postWithResp_send_ok
          postWithResp_read_empty)
  next
    case False
    with assms ra show ?thesis
      by (simp add: postWithBody_def post_def postWithResp_send_eq postWithResp_send_ok
          postWithResp_read_nonempty un)
  qed
qed

text \<open>
  The theorem for the bodies \<open>oops\<close>, \<open>[1]\<close> and no bytes.
\<close>

theorem discarded_destination_still_parsed_witness:
  "clientDo (demoClient (okAnswer ''oops'') :: (string, string) client)
      (withToken (demoPost ''Lock'' [])) =
     Inr \<lparr>resp_StatusCode = 200, resp_Status = ''200 OK'',
          resp_Body = \<lparr>body_data = ''oops'', body_readErr = None\<rparr>\<rparr> \<and>
   post (demoClient (okAnswer ''oops'') :: (string, string) client) ''Lock'' [''service'', ''s''] [] =
     (Failure (Wrap (ExtError ''invalid character'') ''decoding response from server''), None,
      [EvMakeURL ''Lock'' [''service'', ''s''],
       EvNewRequest ''POST'' ''http://flux/Lock'' (Some []),
       EvTokenSet (demoPost ''Lock'' []), EvDo (withToken (demoPost ''Lock'' [])),
       EvReadAll, EvUnmarshal ''oops'', EvClose]) \<and>
   post (demoClient (okAnswer ''[1]'') :: (string, string) client) ''Lock'' [''service'', ''s''] [] =
     (Success, None,
      [EvMakeURL ''Lock'' [''service'', ''s''],
       EvNewRequest ''POST'' ''http://flux/Lock'' (Some []),
       EvTokenSet (demoPost ''Lock'' []), EvDo (withToken (demoPost ''Lock'' [])),
       EvReadAll, EvUnmarshal ''[1]'', EvClose]) \<and>
   post (demoClient (okAnswer []) :: (string, string) client) ''Lock'' [''service'', ''s''] [] =
     (Success, None,
      [EvMakeURL ''Lock'' [''service'', ''s''],
       EvNewRequest ''POST'' ''http://flux/Lock'' (Some []),
       EvTokenSet (demoPost ''Lock'' []), EvDo (withToken (demoPost ''Lock'' [])),
       EvReadAll, EvClose]) \<and>
   postWithBody (demoClient (okAnswer ''oops'') :: (string, string) client) ''SetConfig''
       (Some ''x'') [] [] =
     (Failure (Wrap (ExtError ''invalid character'') ''decoding response from server''), None,
      [EvMakeURL ''SetConfig'' [], EvMarshal,
       EvNewRequest ''POST'' ''http://flux/SetConfig'' (Some ''[x]''),
       EvTokenSet (demoPost ''SetConfig'' ''[x]''),
       EvDo (withToken (demoPost ''SetConfig'' ''[x]'')),
       EvReadAll, EvUnmarshal ''oops'', EvClose])"
proof -
  have a: "post (demoClient (okAnswer bs) :: (string, string) client) ''Lock'' [''service'', ''s''] [] =
      (if bs = [] then
          (Success, None,
           [EvMakeURL ''Lock'' [''service'', ''s''],
            EvNewRequest ''POST'' ''http://flux/Lock'' (Some []),
            EvTokenSet (demoPost ''Lock'' []), EvDo (withToken (demoPost ''Lock'' [])),
            EvReadAll, EvClose])
       else
          (case toyParse bs of
             Some e \<Rightarrow> Failure (Wrap e ''decoding response from server'')
           | None \<Rightarrow> Success,
           None,
           [EvMakeURL ''Lock'' [''service'', ''s''],
            EvNewRequest ''POST'' ''http://flux/Lock'' (Some []),
            EvTokenSet (demoPost ''Lock'' []), EvDo (withToken (demoPost ''Lock'' [])),
            EvReadAll, EvUnmarshal bs, EvClose]))" for bs
    using discarded_destination_still_parsed
      [where c = "demoClient (okAnswer bs) :: (string, string) client" and route = "''Lock''"
         and ps = "[''service'', ''s'']" and u = "''http://flux/Lock''" and body = None
         and bs = "[]" and ?req0.0 = "demoPost ''Lock'' []" and tr = "[]"
         and resp = "\<lparr>resp_StatusCode = 200, resp_Status = ''200 OK'',
            resp_Body = \<lparr>body_data = bs, body_readErr = None\<rparr>\<rparr>"]
    by (simp add: demoClient_def demoClientOf_def answerWith_def okAnswer_def demoPost_def NewRequest_def
        encodeBody_def)
  have b: "postWithBody (demoClient (okAnswer ''oops'') :: (string, string) client) ''SetConfig''
       (Some ''x'') [] [] =
     (Failure (Wrap (ExtError ''invalid character'') ''decoding response from server''), None,
      [EvMakeURL ''SetConfig'' [], EvMarshal,
       EvNewRequest ''POST'' ''http://flux/SetConfig'' (Some ''[x]''),
       EvTokenSet (demoPost ''SetConfig'' ''[x]''),
       EvDo (withToken (demoPost ''SetConfig'' ''[x]'')),
       EvReadAll, EvUnmarshal ''oops'', EvClose])"
    using discarded_destination_still_parsed
      [where c = "demoClient (okAnswer ''oops'') :: (string, string) client"
         and route = "''SetConfig''"
         and ps = "[]" and u = "''http://flux/SetConfig''" and body = "Some ''x''"
         and bs = "''[x]''" and ?req0.0 = "demoPost ''SetConfig'' ''[x]''" and tr = "[]"
         and resp = "\<lparr>resp_StatusCode = 200, resp_Status = ''200 OK'',
            resp_Body = \<lparr>body_data = ''oops'', body_readErr = None\<rparr>\<rparr>"]
    by (simp add: demo_defs)
  show ?thesis
    by (simp add: a b) (simp add: demo_defs)
qed

end
